theory Spec2Isabelle
  imports Complex_Main
begin

section \<open>Python exceptions as values\<close>

text \<open>
  Every function of the notebooks that can raise returns \<open>error + 'a\<close>: \<open>Inl\<close> carries
  the exception that Python would raise, \<open>Inr\<close> the value that is returned.
\<close>

datatype error =
    IndexError
  | KeyError
  | ZeroDivisionError
  | ValueError
  | UnboundLocalError
  | FileNotFoundError
  | CvError

section \<open>Intersection over Union (Lab 5, \<open>iou\<close>)\<close>

text \<open>
  A box is the Python list \<open>[x_min, y_min, x_max, y_max]\<close>. Every box that reaches
  \<open>iou\<close> in the notebook is a list of Python integers: the annotations are parsed with
  \<open>int(...)\<close>, \<open>interpret_output\<close> applies \<open>int(...)\<close> to each coordinate, and the three
  test cells pass integer literals. Integer arithmetic in Python is exact, so the
  intersection and the areas are \<open>int\<close>; only the final quotient is a float, which is
  modelled by the real quotient.
\<close>

type_synonym box = "int list"

text \<open>The local variable \<open>inter_area\<close> of \<open>iou\<close>, with \<open>x0, y0, x1, y1\<close> as in the source.\<close>

definition inter_area :: "box \<Rightarrow> box \<Rightarrow> int" where
  "inter_area boxA boxB =
     (let x0 = max (boxA ! 0) (boxB ! 0);
          y0 = max (boxA ! 1) (boxB ! 1);
          x1 = min (boxA ! 2) (boxB ! 2);
          y1 = min (boxA ! 3) (boxB ! 3)
      in max (x1 - x0) 0 * max (y1 - y0) 0)"

text \<open>The local variables \<open>boxA_area\<close> and \<open>boxB_area\<close>.\<close>

definition box_area :: "box \<Rightarrow> int" where
  "box_area b = (b ! 2 - b ! 0) * (b ! 3 - b ! 1)"

text \<open>The argument of \<open>float(...)\<close> in the return statement.\<close>

definition iou_denominator :: "box \<Rightarrow> box \<Rightarrow> int" where
  "iou_denominator boxA boxB = box_area boxA + box_area boxB - inter_area boxA boxB"

text \<open>
  \<open>iou\<close> reads the indices 0 to 3 of both lists, so a list shorter than four entries
  raises \<open>IndexError\<close> before anything is divided; the division raises
  \<open>ZeroDivisionError\<close> when the denominator is zero.
\<close>

definition iou :: "box \<Rightarrow> box \<Rightarrow> error + real" where
  "iou boxA boxB =
     (if length boxA < 4 \<or> length boxB < 4 then Inl IndexError
      else if iou_denominator boxA boxB = 0 then Inl ZeroDivisionError
      else Inr (real_of_int (inter_area boxA boxB) / real_of_int (iou_denominator boxA boxB)))"

text \<open>
  The data model of the specification: a corner-form box has four entries and ordered
  corners.
\<close>

definition corner_form :: "box \<Rightarrow> bool" where
  "corner_form b \<longleftrightarrow> length b = 4 \<and> b ! 0 \<le> b ! 2 \<and> b ! 1 \<le> b ! 3"

text \<open>
  Two boxes are disjoint when, on at least one axis, the open intervals they span share
  no point: the larger lower end is not below the smaller upper end.
\<close>

definition disjoint :: "box \<Rightarrow> box \<Rightarrow> bool" where
  "disjoint boxA boxB \<longleftrightarrow>
     min (boxA ! 2) (boxB ! 2) \<le> max (boxA ! 0) (boxB ! 0)
     \<or> min (boxA ! 3) (boxB ! 3) \<le> max (boxA ! 1) (boxB ! 1)"

section \<open>Annotations and the box transform (Lab 5)\<close>

text \<open>
  An annotation is the dictionary built from the Pascal VOC file: the image size
  \<open>(width, height)\<close>, the file name, the class label and the box, all integers parsed
  with \<open>int(...)\<close>. The fields are the keys \<open>"size"\<close>, \<open>"filename"\<close>, \<open>"class"\<close> and
  \<open>"bbox"\<close>.
\<close>

record annotation =
  a_size :: "int \<times> int"
  a_filename :: string
  a_class :: string
  a_bbox :: box

text \<open>The dictionary returned by \<open>interpret_output\<close>, with the keys \<open>"class"\<close>,
  \<open>"confidence"\<close> and \<open>"bbox"\<close>.\<close>

record prediction =
  o_class :: string
  o_confidence :: real
  o_bbox :: box

definition filters :: "string list" where
  "filters = [''dog'', ''cat'', ''bus'', ''car'', ''aeroplane'']"

text \<open>\<open>idx2labels = {k: v for k, v in enumerate(filters)}\<close>\<close>

definition idx2labels :: "nat \<rightharpoonup> string" where
  "idx2labels k = (if k < length filters then Some (filters ! k) else None)"

text \<open>\<open>labels2idx = {v: k for k, v in idx2labels.items()}\<close>: a later entry would
  overwrite an earlier one with the same label.\<close>

definition labels2idx :: "string \<rightharpoonup> nat" where
  "labels2idx = map_of (rev (zip filters [0 ..< length filters]))"

definition img_resize :: int where
  "img_resize = 224"

text \<open>\<open>num_classes = len(labels2idx.keys())\<close>: the number of distinct labels.\<close>

definition num_classes :: nat where
  "num_classes = length (remdups filters)"

text \<open>Sequencing of computations that may raise.\<close>

definition bnd :: "error + 'a \<Rightarrow> ('a \<Rightarrow> error + 'b) \<Rightarrow> error + 'b" where
  "bnd m f = (case m of Inl e \<Rightarrow> Inl e | Inr v \<Rightarrow> f v)"

text \<open>
  One component of the tuple \<open>coords[i] * img_resize / size[j]\<close>: the list is indexed
  first, then the true division raises on a zero image extent. Floats are modelled by
  the reals.
\<close>

definition resized :: "box \<Rightarrow> nat \<Rightarrow> int \<Rightarrow> error + real" where
  "resized coords i extent =
     (if length coords \<le> i then Inl IndexError
      else if extent = 0 then Inl ZeroDivisionError
      else Inr (real_of_int (coords ! i * img_resize) / real_of_int extent))"

text \<open>The body of the loop of \<open>tensorize_ground_truth\<close>: the one-hot class vector and
  the center-form box \<open>[cx, cy, w, h]\<close> of one annotation.\<close>

definition tensorize_annotation :: "annotation \<Rightarrow> error + (real list \<times> real list)" where
  "tensorize_annotation annotation =
     (case labels2idx (a_class annotation) of
        None \<Rightarrow> Inl KeyError
      | Some cls_idx \<Rightarrow>
          if num_classes \<le> cls_idx then Inl IndexError
          else
            let cls = (replicate num_classes 0)[cls_idx := 1];
                coords = a_bbox annotation;
                size = a_size annotation
            in bnd (resized coords 0 (fst size)) (\<lambda>x1.
               bnd (resized coords 1 (snd size)) (\<lambda>y1.
               bnd (resized coords 2 (fst size)) (\<lambda>x2.
               bnd (resized coords 3 (snd size)) (\<lambda>y2.
                 let cx = (x2 + x1) / 2;
                     cy = (y2 + y1) / 2;
                     w = x2 - x1;
                     h = y2 - y1;
                     boxes = [cx, cy, w, h]
                 in Inr (cls, boxes))))))"

text \<open>The loop, with the two lists it appends to.\<close>

fun tensorize_loop ::
  "annotation list \<Rightarrow> real list list \<Rightarrow> real list list
     \<Rightarrow> error + (real list list \<times> real list list)" where
  "tensorize_loop [] all_cls all_boxes = Inr (all_cls, all_boxes)"
| "tensorize_loop (annotation # annotations) all_cls all_boxes =
     (case tensorize_annotation annotation of
        Inl e \<Rightarrow> Inl e
      | Inr (cls, boxes) \<Rightarrow>
          tensorize_loop annotations (all_cls @ [cls]) (all_boxes @ [boxes]))"

text \<open>\<open>np.vstack\<close> raises \<open>ValueError\<close> on an empty list of rows.\<close>

definition tensorize_ground_truth ::
  "annotation list \<Rightarrow> error + (real list list \<times> real list list)" where
  "tensorize_ground_truth annotations =
     (case tensorize_loop annotations [] [] of
        Inl e \<Rightarrow> Inl e
      | Inr (all_cls, all_boxes) \<Rightarrow>
          if all_cls = [] then Inl ValueError else Inr (all_cls, all_boxes))"

text \<open>
  \<open>np.argmax\<close>: the index of the first greatest entry; \<open>ValueError\<close> on an empty
  array. \<open>argmax_from best v i xs\<close> scans \<open>xs\<close>, whose first entry has index \<open>i\<close>, with
  the greatest entry so far \<open>v\<close> at index \<open>best\<close>.
\<close>

fun argmax_from :: "nat \<Rightarrow> real \<Rightarrow> nat \<Rightarrow> real list \<Rightarrow> nat" where
  "argmax_from best v i [] = best"
| "argmax_from best v i (x # xs) =
     (if v < x then argmax_from i x (Suc i) xs else argmax_from best v (Suc i) xs)"

definition argmax :: "real list \<Rightarrow> error + nat" where
  "argmax xs = (case xs of [] \<Rightarrow> Inl ValueError | x # rest \<Rightarrow> Inr (argmax_from 0 x 1 rest))"

text \<open>Python's \<open>int(...)\<close> of a float truncates towards zero.\<close>

definition py_int :: "real \<Rightarrow> int" where
  "py_int x = (if 0 \<le> x then \<lfloor>x\<rfloor> else \<lceil>x\<rceil>)"

definition interpret_output :: "real list \<Rightarrow> real list \<Rightarrow> int \<times> int \<Rightarrow> error + prediction" where
  "interpret_output cls boxes img_size =
     bnd (argmax cls) (\<lambda>cls_idx.
       let confidence = cls ! cls_idx in
       case idx2labels cls_idx of
         None \<Rightarrow> Inl KeyError
       | Some classname \<Rightarrow>
           if length boxes < 4 then Inl IndexError
           else
             let cx = boxes ! 0; cy = boxes ! 1;
                 w = boxes ! 2; h = boxes ! 3;
                 small_box = [max 0 (cx - w / 2), max 0 (cy - h / 2),
                              min (real_of_int img_resize) (cx + w / 2),
                              min (real_of_int img_resize) (cy + h / 2)];
                 fullsize_box =
                   [py_int (small_box ! 0 * real_of_int (fst img_size) / real_of_int img_resize),
                    py_int (small_box ! 1 * real_of_int (snd img_size) / real_of_int img_resize),
                    py_int (small_box ! 2 * real_of_int (fst img_size) / real_of_int img_resize),
                    py_int (small_box ! 3 * real_of_int (snd img_size) / real_of_int img_resize)]
             in Inr \<lparr>o_class = classname, o_confidence = confidence, o_bbox = fullsize_box\<rparr>)"


text \<open>
  The data model of the specification: the class is one of the fixed labels, the box is
  in corner form and the image has a size. \<open>in_image\<close> says that the box lies within
  the image.
\<close>

definition valid_annotation :: "annotation \<Rightarrow> bool" where
  "valid_annotation a \<longleftrightarrow>
     a_class a \<in> set filters \<and> corner_form (a_bbox a) \<and> 0 < fst (a_size a) \<and> 0 < snd (a_size a)"


text \<open>
  Python floats are binary64 numbers, modelled here by the reals. The two agree where no
  operation of the transform has to round: binary64 holds every whole number and every
  half of a whole number up to \<open>2^53\<close> exactly. \<open>resizes_exactly\<close> says that the
  corners of the resized box are whole numbers, that is, the image extent divides
  \<open>img_resize\<close> times the coordinate, and that the products of the transform stay
  within \<open>2^53\<close>.
\<close>

definition resizes_exactly :: "annotation \<Rightarrow> bool" where
  "resizes_exactly a \<longleftrightarrow>
     fst (a_size a) dvd a_bbox a ! 0 * img_resize \<and> snd (a_size a) dvd a_bbox a ! 1 * img_resize
     \<and> fst (a_size a) dvd a_bbox a ! 2 * img_resize \<and> snd (a_size a) dvd a_bbox a ! 3 * img_resize
     \<and> img_resize * fst (a_size a) \<le> 2 ^ 53 \<and> img_resize * snd (a_size a) \<le> 2 ^ 53"

text \<open>The scale factor of one axis: the training resolution over the image extent.\<close>

definition scale_factor :: "int \<Rightarrow> real" where
  "scale_factor extent = real_of_int img_resize / real_of_int extent"

section \<open>Class accuracy, mean IoU and global accuracy (Lab 5, \<open>accuracy_and_iou\<close>)\<close>

text \<open>
  The loop over \<open>zip(preds, trues)\<close> with its three accumulators. A prediction is the
  dictionary returned by \<open>interpret_output\<close>, a ground truth is an annotation; only the
  keys \<open>"bbox"\<close> and \<open>"class"\<close> are read. An exception of \<open>iou\<close> leaves the loop.
\<close>

fun accuracy_loop ::
  "(prediction \<times> annotation) list \<Rightarrow> real \<Rightarrow> nat \<times> nat \<times> real \<Rightarrow> error + (nat \<times> nat \<times> real)" where
  "accuracy_loop [] threshold (sum_valid, sum_accurate, sum_iou) =
     Inr (sum_valid, sum_accurate, sum_iou)"
| "accuracy_loop ((pred, true) # pairs) threshold (sum_valid, sum_accurate, sum_iou) =
     (case iou (o_bbox pred) (a_bbox true) of
        Inl e \<Rightarrow> Inl e
      | Inr iou_value \<Rightarrow>
          accuracy_loop pairs threshold
            (if o_class pred = a_class true \<and> threshold < iou_value
               then sum_valid + 1 else sum_valid,
             if o_class pred = a_class true then sum_accurate + 1 else sum_accurate,
             sum_iou + iou_value))"

text \<open>
  \<open>num = len(preds)\<close> is taken before the loop; the three quotients of the return
  statement raise \<open>ZeroDivisionError\<close> when \<open>preds\<close> is empty.
\<close>

definition accuracy_and_iou ::
  "prediction list \<Rightarrow> annotation list \<Rightarrow> real \<Rightarrow> error + (real \<times> real \<times> real)" where
  "accuracy_and_iou preds trues threshold =
     (let num = length preds in
      case accuracy_loop (zip preds trues) threshold (0, 0, 0) of
        Inl e \<Rightarrow> Inl e
      | Inr (sum_valid, sum_accurate, sum_iou) \<Rightarrow>
          if num = 0 then Inl ZeroDivisionError
          else Inr (real sum_accurate / real num, sum_iou / real num, real sum_valid / real num))"

text \<open>
  Notions to state the result: a pair has a matching class; its \<open>iou\<close> does not
  raise; its \<open>iou\<close> value; it is positive, as the notebook calls it, when the class
  matches and the \<open>iou\<close> is above the threshold.
\<close>

definition class_matches :: "prediction \<times> annotation \<Rightarrow> bool" where
  "class_matches p \<longleftrightarrow> o_class (fst p) = a_class (snd p)"

definition iou_defined :: "prediction \<times> annotation \<Rightarrow> bool" where
  "iou_defined p \<longleftrightarrow>
     (case iou (o_bbox (fst p)) (a_bbox (snd p)) of Inl e \<Rightarrow> False | Inr v \<Rightarrow> True)"

definition iou_of :: "prediction \<times> annotation \<Rightarrow> real" where
  "iou_of p = (case iou (o_bbox (fst p)) (a_bbox (snd p)) of Inl e \<Rightarrow> 0 | Inr v \<Rightarrow> v)"

definition positive :: "real \<Rightarrow> prediction \<times> annotation \<Rightarrow> bool" where
  "positive threshold p \<longleftrightarrow> class_matches p \<and> threshold < iou_of p"

section \<open>Webcam snapshot (\<open>camera_grab\<close>)\<close>

text \<open>
  The camera object of OpenCV: the outcomes of the calls of \<open>camera.read()\<close> still to
  come, each an exception or a pair \<open>(snapshot_ok, image)\<close>, and whether the device has
  been released. Images are values of an arbitrary type.
\<close>

record 'img camera =
  pending :: "(error + bool \<times> 'img option) list"
  released :: bool

text \<open>
  The three library functions that \<open>camera_grab\<close> calls: \<open>cv2.VideoCapture\<close>,
  \<open>cv2.cvtColor(_, cv2.COLOR_BGR2RGB)\<close> and \<open>skimage.io.imread\<close>. Each may raise.
\<close>

record 'img cv2 =
  VideoCapture :: "int \<Rightarrow> error + 'img camera"
  cvtColor :: "'img \<Rightarrow> error + 'img"
  imread :: "string \<Rightarrow> error + 'img"

text \<open>
  What a call of \<open>camera_grab\<close> leaves behind: the returned image or the exception that
  propagates, the camera object if one was created, and the lines printed.
\<close>

record 'img grab =
  returned :: "error + 'img option"
  device :: "'img camera option"
  stdout :: "string list"

text \<open>
  \<open>camera.read()\<close> consumes the next outcome; a camera with nothing to deliver reports
  a failed snapshot, \<open>(False, None)\<close>.
\<close>

definition camera_read :: "'img camera \<Rightarrow> (error + bool \<times> 'img option) \<times> 'img camera" where
  "camera_read camera =
     (case pending camera of
        [] \<Rightarrow> (Inr (False, None), camera)
      | r # rs \<Rightarrow> (r, camera\<lparr>pending := rs\<rparr>))"

definition release :: "'img camera \<Rightarrow> 'img camera" where
  "release camera = camera\<lparr>released := True\<rparr>"

text \<open>
  \<open>for i in range(10): snapshot_ok, image = camera.read()\<close>. The pair is unbound
  before the first iteration; an exception of \<open>read\<close> leaves the loop.
\<close>

fun snapshots ::
  "nat \<Rightarrow> (bool \<times> 'img option) option \<Rightarrow> 'img camera
     \<Rightarrow> (error + (bool \<times> 'img option) option) \<times> 'img camera" where
  "snapshots 0 latest camera = (Inr latest, camera)"
| "snapshots (Suc n) latest camera =
     (case camera_read camera of
        (Inl e, camera') \<Rightarrow> (Inl e, camera')
      | (Inr r, camera') \<Rightarrow> snapshots n (Some r) camera')"

text \<open>
  The body of the \<open>try\<close> statement. \<open>if fallback_filename:\<close> is false for \<open>None\<close> and
  for the empty string; without a fallback the image of the last, failed snapshot is
  kept.
\<close>

definition try_block ::
  "'img cv2 \<Rightarrow> string option \<Rightarrow> 'img camera \<Rightarrow> (error + 'img option) \<times> 'img camera \<times> string list" where
  "try_block cv fallback_filename camera =
     (case snapshots 10 None camera of
        (Inl e, camera') \<Rightarrow> (Inl e, camera', [])
      | (Inr None, camera') \<Rightarrow> (Inl UnboundLocalError, camera', [])
      | (Inr (Some (snapshot_ok, frame)), camera') \<Rightarrow>
          if snapshot_ok then
            (case frame of
               None \<Rightarrow> (Inl CvError, camera', [])
             | Some bgr \<Rightarrow>
                 (case cvtColor cv bgr of
                    Inl e \<Rightarrow> (Inl e, camera', [])
                  | Inr rgb \<Rightarrow> (Inr (Some rgb), camera', [])))
          else
            let out = [''WARNING: could not access camera''] in
            (case fallback_filename of
               None \<Rightarrow> (Inr frame, camera', out)
             | Some name \<Rightarrow>
                 if name = [] then (Inr frame, camera', out)
                 else
                   (case imread cv name of
                      Inl e \<Rightarrow> (Inl e, camera', out)
                    | Inr file_image \<Rightarrow> (Inr (Some file_image), camera', out))))"

text \<open>
  \<open>camera_grab\<close>: the camera is created before the \<open>try\<close> statement; the \<open>finally\<close>
  clause releases it whatever the body did, then the image is returned or the
  exception propagates.
\<close>

definition camera_grab :: "'img cv2 \<Rightarrow> int \<Rightarrow> string option \<Rightarrow> 'img grab" where
  "camera_grab cv camera_id fallback_filename =
     (case VideoCapture cv camera_id of
        Inl e \<Rightarrow> \<lparr>returned = Inl e, device = None, stdout = []\<rparr>
      | Inr camera \<Rightarrow>
          (case try_block cv fallback_filename camera of
             (result, camera', out) \<Rightarrow>
               \<lparr>returned = result, device = Some (release camera'), stdout = out\<rparr>))"

section \<open>Text generation (Assignment 2)\<close>

text \<open>
  \<open>get_predicted_word\<close>: \<open>model.predict(sequence, verbose=0)\<close> returns the next-token
  distribution, and \<open>np.random.choice(range(VOCAB_SIZE), p=yhat.ravel())\<close> draws an
  index from it. The model and the random draw are parameters; the draw may raise (a
  distribution of the wrong length, or one that does not sum to 1).
\<close>

definition get_predicted_word ::
  "('seq \<Rightarrow> real list) \<Rightarrow> (nat list \<Rightarrow> real list \<Rightarrow> error + nat) \<Rightarrow> nat \<Rightarrow> 'seq \<Rightarrow> error + nat" where
  "get_predicted_word predict random_choice VOCAB_SIZE sequence =
     (let yhat = predict sequence
      in random_choice [0 ..< VOCAB_SIZE] yhat)"

text \<open>
  \<open>generate_text\<close>: the body of the function in the notebook is its docstring followed
  by \<open>return None\<close>. Python's \<open>None\<close> is \<open>None\<close>; a generated text would be \<open>Some\<close>
  string.
\<close>

definition generate_text :: "'model \<Rightarrow> 'tokenizer \<Rightarrow> string \<Rightarrow> nat \<Rightarrow> string option" where
  "generate_text model tokenizer seed_text max_sequence_len = None"

section \<open>Properties of \<open>iou\<close>\<close>

lemma inter_area_commute: "inter_area boxA boxB = inter_area boxB boxA"
  by (simp add: inter_area_def Let_def max.commute min.commute)

lemma iou_denominator_commute: "iou_denominator boxA boxB = iou_denominator boxB boxA"
  by (simp add: iou_denominator_def inter_area_commute)

lemma inter_area_nonneg: "0 \<le> inter_area boxA boxB"
  by (simp add: inter_area_def Let_def)

lemma inter_area_self:
  "b ! 0 \<le> b ! 2 \<Longrightarrow> b ! 1 \<le> b ! 3 \<Longrightarrow> inter_area b b = box_area b"
  by (simp add: inter_area_def box_area_def Let_def)

lemma inter_area_disjoint: "disjoint boxA boxB \<Longrightarrow> inter_area boxA boxB = 0"
  by (auto simp add: inter_area_def disjoint_def Let_def max_def)

lemma box_area_nonneg: "corner_form b \<Longrightarrow> 0 \<le> box_area b"
  by (simp add: corner_form_def box_area_def)

text \<open>
  The predicate \<open>disjoint\<close> says what the words say: on one axis the interiors of the
  two boxes, as open intervals of the real line, have no point in common.
\<close>

lemma disjoint_interiors:
  "disjoint boxA boxB \<longleftrightarrow>
     {real_of_int (boxA ! 0) <..< real_of_int (boxA ! 2)}
       \<inter> {real_of_int (boxB ! 0) <..< real_of_int (boxB ! 2)} = {}
   \<or> {real_of_int (boxA ! 1) <..< real_of_int (boxA ! 3)}
       \<inter> {real_of_int (boxB ! 1) <..< real_of_int (boxB ! 3)} = {}"
proof -
  have ivl: "{real_of_int a <..< real_of_int b} \<inter> {real_of_int c <..< real_of_int d} = {}
      \<longleftrightarrow> min b d \<le> max a c" for a b c d :: int
  proof -
    have "{real_of_int a <..< real_of_int b} \<inter> {real_of_int c <..< real_of_int d}
        = {real_of_int (max a c) <..< real_of_int (min b d)}"
      by (auto simp: max_def min_def)
    then show ?thesis by simp
  qed
  show ?thesis unfolding disjoint_def ivl by (rule refl)
qed

text \<open>The intersection is contained in each box, so its area is at most theirs.\<close>

lemma inter_area_le_boxA:
  assumes "boxA ! 0 \<le> boxA ! 2" and "boxA ! 1 \<le> boxA ! 3"
  shows "inter_area boxA boxB \<le> box_area boxA"
proof -
  have x: "max (min (boxA ! 2) (boxB ! 2) - max (boxA ! 0) (boxB ! 0)) 0 \<le> boxA ! 2 - boxA ! 0"
    using assms(1) by (simp add: max_def min_def)
  have y: "max (min (boxA ! 3) (boxB ! 3) - max (boxA ! 1) (boxB ! 1)) 0 \<le> boxA ! 3 - boxA ! 1"
    using assms(2) by (simp add: max_def min_def)
  have "max (min (boxA ! 2) (boxB ! 2) - max (boxA ! 0) (boxB ! 0)) 0
        * max (min (boxA ! 3) (boxB ! 3) - max (boxA ! 1) (boxB ! 1)) 0
      \<le> (boxA ! 2 - boxA ! 0) * (boxA ! 3 - boxA ! 1)"
    using x y assms by (intro mult_mono) simp_all
  then show ?thesis by (simp add: inter_area_def box_area_def Let_def)
qed

lemma inter_area_le_boxB:
  assumes "boxB ! 0 \<le> boxB ! 2" and "boxB ! 1 \<le> boxB ! 3"
  shows "inter_area boxA boxB \<le> box_area boxB"
  using inter_area_le_boxA [OF assms, of boxA] by (simp add: inter_area_commute)

lemma iou_denominator_zero_iff:
  assumes "corner_form boxA" and "corner_form boxB"
  shows "iou_denominator boxA boxB = 0 \<longleftrightarrow> box_area boxA = 0 \<and> box_area boxB = 0"
proof -
  have a: "0 \<le> box_area boxA" and b: "0 \<le> box_area boxB"
    using assms by (simp_all add: box_area_nonneg)
  have ia: "inter_area boxA boxB \<le> box_area boxA"
    using assms(1) by (simp add: corner_form_def inter_area_le_boxA)
  have ib: "inter_area boxA boxB \<le> box_area boxB"
    using assms(2) by (simp add: corner_form_def inter_area_le_boxB)
  have i0: "0 \<le> inter_area boxA boxB" by (rule inter_area_nonneg)
  show ?thesis unfolding iou_denominator_def using a b ia ib i0 by linarith
qed

text \<open>
  C1, as the code has it. A box of zero area divides by zero, so \<open>iou\<close> of a box with
  itself is 1 exactly when the box has positive width and height; the box of the
  notebook's second test cell is one of them.
\<close>

theorem iou_identical:
  assumes "corner_form boxA" and "boxA ! 0 < boxA ! 2" and "boxA ! 1 < boxA ! 3"
  shows "iou boxA boxA = Inr 1"
proof -
  have pos: "0 < box_area boxA"
    using assms(2,3) by (simp add: box_area_def)
  have inter: "inter_area boxA boxA = box_area boxA"
    using assms(2,3) by (simp add: inter_area_self)
  have den: "iou_denominator boxA boxA = box_area boxA"
    by (simp add: iou_denominator_def inter)
  from assms(1) have len: "length boxA = 4" by (simp add: corner_form_def)
  show ?thesis using pos by (simp add: iou_def den inter len)
qed

theorem iou_identical_witness:
  "corner_form [47, 35, 147, 101] \<and> [47, 35, 147, 101] ! 0 < [47, 35, 147, 101 :: int] ! 2
   \<and> [47, 35, 147, 101] ! 1 < [47, 35, 147, 101 :: int] ! 3
   \<and> iou [47, 35, 147, 101] [47, 35, 147, 101] = Inr 1"
  using iou_identical [of "[47, 35, 147, 101]"] by (simp add: corner_form_def)

text \<open>
  C1 as stated fails: a corner-form box of zero width has ordered corners, and \<open>iou\<close> of
  it with itself raises \<open>ZeroDivisionError\<close> instead of returning 1.
\<close>

theorem iou_identical_counterexample:
  "corner_form [5, 5, 5, 9] \<and> iou [5, 5, 5, 9] [5, 5, 5, 9] = Inl ZeroDivisionError"
  by (simp add: corner_form_def iou_def iou_denominator_def box_area_def inter_area_def)

text \<open>
  C2, as the code has it. For two disjoint corner-form boxes of which at least one has
  positive area, the intersection area is floored at zero and \<open>iou\<close> returns 0; the
  boxes of the notebook's first test cell are such a pair.
\<close>

theorem iou_disjoint:
  assumes "corner_form boxA" and "corner_form boxB" and "disjoint boxA boxB"
    and "0 < box_area boxA \<or> 0 < box_area boxB"
  shows "inter_area boxA boxB = 0 \<and> iou boxA boxB = Inr 0"
proof -
  have "0 \<le> box_area boxA" "0 \<le> box_area boxB"
    using assms(1,2) by (simp_all add: box_area_nonneg)
  with assms(4) have "0 < box_area boxA + box_area boxB" by linarith
  then have "iou_denominator boxA boxB \<noteq> 0"
    by (simp add: iou_denominator_def inter_area_disjoint [OF assms(3)])
  then show ?thesis
    using assms(1,2) by (simp add: iou_def corner_form_def inter_area_disjoint [OF assms(3)])
qed

theorem iou_disjoint_witness:
  "corner_form [47, 35, 147, 101] \<and> corner_form [1, 124, 496, 235]
   \<and> disjoint [47, 35, 147, 101] [1, 124, 496, 235]
   \<and> 0 < box_area [47, 35, 147, 101]
   \<and> inter_area [47, 35, 147, 101] [1, 124, 496, 235] = 0
   \<and> iou [47, 35, 147, 101] [1, 124, 496, 235] = Inr 0"
  using iou_disjoint [of "[47, 35, 147, 101]" "[1, 124, 496, 235]"]
  by (simp add: corner_form_def disjoint_def box_area_def)

text \<open>
  C2 as stated fails: two disjoint boxes of zero area have a zero denominator, and
  \<open>iou\<close> raises \<open>ZeroDivisionError\<close> instead of returning 0.
\<close>

theorem iou_disjoint_counterexample:
  "corner_form [0, 0, 0, 0] \<and> corner_form [1, 1, 1, 1] \<and> disjoint [0, 0, 0, 0] [1, 1, 1, 1]
   \<and> iou [0, 0, 0, 0] [1, 1, 1, 1] = Inl ZeroDivisionError"
  by (simp add: corner_form_def disjoint_def iou_def iou_denominator_def box_area_def
      inter_area_def)

text \<open>
  C3. \<open>iou\<close> is symmetric in its two arguments, for all lists: the value is the same,
  and so is the exception when one is raised.
\<close>

theorem iou_symmetric: "iou boxA boxB = iou boxB boxA"
  unfolding iou_def
  by (simp add: inter_area_commute iou_denominator_commute disj_commute)

text \<open>
  C4, as the code has it. On the boxes of the notebook's third test cell the
  intersection is the inner box, of area 6144, the union is the outer box, of area
  6600, and \<open>iou\<close> returns 6144 / 6600 = 256 / 275, which is 0.93 to two decimals.
\<close>

theorem iou_nested:
  "iou [47, 35, 147, 101] [49, 36, 145, 100] = Inr (256 / 275)
   \<and> \<bar>256 / 275 - 93 / 100\<bar> < (1 / 1000 :: real)"
  by (simp add: iou_def iou_denominator_def box_area_def inter_area_def)

text \<open>
  C4 as stated fails: the value returned on these boxes is more than 0.04 away from
  0.89.
\<close>

theorem iou_nested_counterexample:
  "iou [47, 35, 147, 101] [49, 36, 145, 100] = Inr (256 / 275)
   \<and> (4 / 100 :: real) < \<bar>256 / 275 - 89 / 100\<bar>"
  by (simp add: iou_def iou_denominator_def box_area_def inter_area_def)

text \<open>
  C5. For two corner-form boxes the denominator of \<open>iou\<close> is zero exactly when both
  boxes have zero area, \<open>ZeroDivisionError\<close> is raised exactly then, and as soon as one
  box has positive area the quotient is returned.
\<close>

theorem iou_zero_division:
  assumes "corner_form boxA" and "corner_form boxB"
  shows "(iou_denominator boxA boxB = 0 \<longleftrightarrow> box_area boxA = 0 \<and> box_area boxB = 0)
    \<and> (iou boxA boxB = Inl ZeroDivisionError \<longleftrightarrow> box_area boxA = 0 \<and> box_area boxB = 0)
    \<and> (0 < box_area boxA \<or> 0 < box_area boxB \<longrightarrow>
          iou boxA boxB
            = Inr (real_of_int (inter_area boxA boxB) / real_of_int (iou_denominator boxA boxB)))"
proof -
  have len: "length boxA = 4" "length boxB = 4"
    using assms by (simp_all add: corner_form_def)
  have z: "iou_denominator boxA boxB = 0 \<longleftrightarrow> box_area boxA = 0 \<and> box_area boxB = 0"
    by (rule iou_denominator_zero_iff [OF assms])
  have e: "iou boxA boxB = Inl ZeroDivisionError \<longleftrightarrow> iou_denominator boxA boxB = 0"
    by (simp add: iou_def len)
  have r: "iou_denominator boxA boxB \<noteq> 0 \<Longrightarrow> iou boxA boxB
            = Inr (real_of_int (inter_area boxA boxB) / real_of_int (iou_denominator boxA boxB))"
    by (simp add: iou_def len)
  show ?thesis using z e r by auto
qed

theorem iou_zero_division_witness:
  "corner_form [47, 35, 147, 101] \<and> corner_form [5, 5, 5, 9]
   \<and> iou_denominator [47, 35, 147, 101] [5, 5, 5, 9] \<noteq> 0
   \<and> iou [47, 35, 147, 101] [5, 5, 5, 9] \<noteq> Inl ZeroDivisionError
   \<and> 0 < box_area [47, 35, 147, 101]
   \<and> iou [47, 35, 147, 101] [5, 5, 5, 9] = Inr 0"
  using iou_zero_division [of "[47, 35, 147, 101]" "[5, 5, 5, 9]"]
  by (simp add: corner_form_def box_area_def inter_area_def)

section \<open>Properties of the box transform\<close>

lemma num_classes_eq: "num_classes = 5"
  by (simp add: num_classes_def filters_def)

lemma one_hot_facts:
  assumes "c \<in> set filters"
  shows "\<exists>k. labels2idx c = Some k \<and> k < num_classes \<and> idx2labels k = Some c
          \<and> argmax ((replicate num_classes 0)[k := 1]) = Inr k
          \<and> (replicate num_classes 0)[k := 1] ! k = (1::real)"
  using assms
  by (auto simp: num_classes_eq filters_def labels2idx_def idx2labels_def argmax_def
      upt_rec eval_nat_numeral)


lemma py_int_below:
  assumes "1 \<le> n" and "0 < d" and "d \<le> 1"
  shows "py_int (real_of_int n - d) = n - 1"
proof -
  have "0 \<le> real_of_int n - d" using assms by linarith
  moreover have "\<lfloor>real_of_int n - d\<rfloor> = n - 1" using assms by linarith
  ultimately show ?thesis by (simp add: py_int_def)
qed






lemma tensorize_annotation_box:
  assumes "labels2idx (a_class a) = Some k" and "k < num_classes"
    and "a_bbox a = [x_min, y_min, x_max, y_max]" and "a_size a = (width, height)"
    and "width \<noteq> 0" and "height \<noteq> 0"
  shows "tensorize_annotation a = Inr ((replicate num_classes 0)[k := 1],
       [(real_of_int (x_max * img_resize) / real_of_int width
          + real_of_int (x_min * img_resize) / real_of_int width) / 2,
        (real_of_int (y_max * img_resize) / real_of_int height
          + real_of_int (y_min * img_resize) / real_of_int height) / 2,
        real_of_int (x_max * img_resize) / real_of_int width
          - real_of_int (x_min * img_resize) / real_of_int width,
        real_of_int (y_max * img_resize) / real_of_int height
          - real_of_int (y_min * img_resize) / real_of_int height])"
  using assms by (simp add: tensorize_annotation_def resized_def bnd_def Let_def)

lemma interpret_output_box:
  assumes "argmax cls = Inr j" and "idx2labels j = Some c"
  shows "interpret_output cls [cx, cy, w, h] (width, height)
    = Inr \<lparr>o_class = c, o_confidence = cls ! j,
        o_bbox = [py_int (max 0 (cx - w / 2) * real_of_int width / real_of_int img_resize),
                  py_int (max 0 (cy - h / 2) * real_of_int height / real_of_int img_resize),
                  py_int (min (real_of_int img_resize) (cx + w / 2) * real_of_int width
                            / real_of_int img_resize),
                  py_int (min (real_of_int img_resize) (cy + h / 2) * real_of_int height
                            / real_of_int img_resize)]\<rparr>"
  using assms by (simp add: interpret_output_def bnd_def Let_def)





text \<open>
  Under \<open>resizes_exactly\<close> the corners of the resized box are the whole numbers
  \<open>coords[i] * img_resize div extent\<close>, between 0 and \<open>img_resize\<close> for a box within
  its image, so that the center-form row that \<open>tensorize_ground_truth\<close> stores consists
  of whole numbers and halves of whole numbers, none beyond \<open>2 * img_resize\<close>.
\<close>

lemma resized_value_whole:
  assumes "extent dvd c * img_resize"
  shows "real_of_int (c * img_resize) / real_of_int extent
    = real_of_int (c * img_resize div extent)"
  using assms by (simp add: real_of_int_div)

lemma resized_whole_range:
  assumes "0 < extent" and "0 \<le> c" and "c \<le> extent"
  shows "0 \<le> c * img_resize div extent \<and> c * img_resize div extent \<le> img_resize"
proof -
  have "0 \<le> c * img_resize" using assms(2) by (simp add: img_resize_def)
  then have lo: "0 \<le> c * img_resize div extent"
    using assms(1) by (simp add: pos_imp_zdiv_nonneg_iff)
  have "c * img_resize \<le> img_resize * extent"
    using assms(3) by (simp add: img_resize_def)
  then have "c * img_resize div extent \<le> img_resize * extent div extent"
    using assms(1) by (intro zdiv_mono1)
  then have "c * img_resize div extent \<le> img_resize" using assms(1) by simp
  with lo show ?thesis by simp
qed

lemma tensorize_annotation_whole:
  assumes "valid_annotation a" and "resizes_exactly a"
    and "a_bbox a = [x_min, y_min, x_max, y_max]" and "a_size a = (width, height)"
  shows "\<exists>k. tensorize_annotation a = Inr ((replicate num_classes 0)[k := 1],
      [real_of_int (x_max * img_resize div width + x_min * img_resize div width) / 2,
       real_of_int (y_max * img_resize div height + y_min * img_resize div height) / 2,
       real_of_int (x_max * img_resize div width - x_min * img_resize div width),
       real_of_int (y_max * img_resize div height - y_min * img_resize div height)])"
proof -
  from assms(1,4) have c: "a_class a \<in> set filters"
    and W: "width \<noteq> 0" and H: "height \<noteq> 0"
    by (auto simp: valid_annotation_def)
  from one_hot_facts [OF c] obtain k where k: "labels2idx (a_class a) = Some k" "k < num_classes"
    by blast
  from assms(2,3,4) have d: "width dvd x_min * img_resize" "height dvd y_min * img_resize"
    "width dvd x_max * img_resize" "height dvd y_max * img_resize"
    by (simp_all add: resizes_exactly_def)
  have "tensorize_annotation a = Inr ((replicate num_classes 0)[k := 1],
      [real_of_int (x_max * img_resize div width + x_min * img_resize div width) / 2,
       real_of_int (y_max * img_resize div height + y_min * img_resize div height) / 2,
       real_of_int (x_max * img_resize div width - x_min * img_resize div width),
       real_of_int (y_max * img_resize div height - y_min * img_resize div height)])"
    unfolding tensorize_annotation_box [OF k assms(3,4) W H]
      resized_value_whole [OF d(1)] resized_value_whole [OF d(2)]
      resized_value_whole [OF d(3)] resized_value_whole [OF d(4)]
    by simp
  then show ?thesis by blast
qed




text \<open>
  Why the round trip needs whole resized corners: the truncation of \<open>int(...)\<close> is not
  continuous. When the lower x value that reaches \<open>interpret_output\<close> falls short of
  the exact one by any amount \<open>d\<close>, however small, as it does when an operation before
  it rounds downwards, the box comes back one pixel to the left.
\<close>

lemma interpret_output_shortfall:
  assumes "argmax cls = Inr j" and "idx2labels j = Some c"
    and "0 < width" and "1 \<le> x_min"
    and "0 < d" and "d \<le> scale_factor width"
    and "cx - w / 2 = real_of_int x_min * scale_factor width - d"
  shows "interpret_output cls [cx, cy, w, h] (width, height)
    = Inr \<lparr>o_class = c, o_confidence = cls ! j,
        o_bbox = [x_min - 1,
                  py_int (max 0 (cy - h / 2) * real_of_int height / real_of_int img_resize),
                  py_int (min (real_of_int img_resize) (cx + w / 2) * real_of_int width
                            / real_of_int img_resize),
                  py_int (min (real_of_int img_resize) (cy + h / 2) * real_of_int height
                            / real_of_int img_resize)]\<rparr>"
proof -
  have sf: "0 < scale_factor width"
    using assms(3) by (simp add: scale_factor_def img_resize_def)
  have "scale_factor width \<le> real_of_int x_min * scale_factor width"
    using assms(4) sf by simp
  then have nonneg: "0 \<le> cx - w / 2" using assms(6,7) by linarith
  have "(cx - w / 2) * real_of_int width / real_of_int img_resize
      = (cx - w / 2) / scale_factor width"
    by (simp add: scale_factor_def)
  also have "\<dots> = real_of_int x_min - d / scale_factor width"
    using sf by (simp add: assms(7) diff_divide_distrib)
  finally have v: "max 0 (cx - w / 2) * real_of_int width / real_of_int img_resize
      = real_of_int x_min - d / scale_factor width"
    using nonneg by simp
  have "0 < d / scale_factor width" and "d / scale_factor width \<le> 1"
    using assms(5,6) sf by simp_all
  then have "py_int (real_of_int x_min - d / scale_factor width) = x_min - 1"
    using assms(4) by (intro py_int_below)
  then show ?thesis
    unfolding interpret_output_box [OF assms(1,2)] v by simp
qed

lemma labels2idx_bound: "labels2idx c = Some k \<Longrightarrow> k < num_classes"
  by (auto simp: labels2idx_def filters_def num_classes_def upt_rec split: if_splits)

lemma tensorize_ground_truth_single:
  "tensorize_annotation a = Inr (cls, boxes) \<Longrightarrow> tensorize_ground_truth [a] = Inr ([cls], [boxes])"
  by (simp add: tensorize_ground_truth_def)

text \<open>
  C7. \<open>tensorize_ground_truth\<close> multiplies \<open>x_min\<close> and \<open>x_max\<close>, hence \<open>cx\<close> and \<open>w\<close>, by
  the scale factor of the width and \<open>y_min\<close> and \<open>y_max\<close>, hence \<open>cy\<close> and \<open>h\<close>, by the
  scale factor of the height; \<open>interpret_output\<close> divides the clamped x values by the
  scale factor of the width and the clamped y values by that of the height. No x value
  depends on the height and no y value on the width.
\<close>

theorem rescale_per_axis:
  assumes "labels2idx (a_class a) = Some k"
    and "a_bbox a = [x_min, y_min, x_max, y_max]" and "a_size a = (width, height)"
    and "width \<noteq> 0" and "height \<noteq> 0"
    and "argmax cls = Inr j" and "idx2labels j = Some c"
  shows "tensorize_ground_truth [a] = Inr ([(replicate num_classes 0)[k := 1]],
       [[(real_of_int x_max * scale_factor width + real_of_int x_min * scale_factor width) / 2,
         (real_of_int y_max * scale_factor height + real_of_int y_min * scale_factor height) / 2,
         real_of_int x_max * scale_factor width - real_of_int x_min * scale_factor width,
         real_of_int y_max * scale_factor height - real_of_int y_min * scale_factor height]])
    \<and> interpret_output cls [cx, cy, w, h] (width, height)
      = Inr \<lparr>o_class = c, o_confidence = cls ! j,
          o_bbox = [py_int (max 0 (cx - w / 2) / scale_factor width),
                    py_int (max 0 (cy - h / 2) / scale_factor height),
                    py_int (min (real_of_int img_resize) (cx + w / 2) / scale_factor width),
                    py_int (min (real_of_int img_resize) (cy + h / 2) / scale_factor height)]\<rparr>"
proof -
  have fwd: "real_of_int (v * img_resize) / real_of_int e = real_of_int v * scale_factor e"
    for v e by (simp add: scale_factor_def)
  have bwd: "x * real_of_int e / real_of_int img_resize = x / scale_factor e" for x e
    by (simp add: scale_factor_def)
  have k: "k < num_classes" using assms(1) by (rule labels2idx_bound)
  have t: "tensorize_annotation a = Inr ((replicate num_classes 0)[k := 1],
       [(real_of_int x_max * scale_factor width + real_of_int x_min * scale_factor width) / 2,
        (real_of_int y_max * scale_factor height + real_of_int y_min * scale_factor height) / 2,
        real_of_int x_max * scale_factor width - real_of_int x_min * scale_factor width,
        real_of_int y_max * scale_factor height - real_of_int y_min * scale_factor height])"
    unfolding tensorize_annotation_box [OF assms(1) k assms(2,3,4,5)] fwd by (rule refl)
  have i: "interpret_output cls [cx, cy, w, h] (width, height)
      = Inr \<lparr>o_class = c, o_confidence = cls ! j,
          o_bbox = [py_int (max 0 (cx - w / 2) / scale_factor width),
                    py_int (max 0 (cy - h / 2) / scale_factor height),
                    py_int (min (real_of_int img_resize) (cx + w / 2) / scale_factor width),
                    py_int (min (real_of_int img_resize) (cy + h / 2) / scale_factor height)]\<rparr>"
    unfolding interpret_output_box [OF assms(6,7)] bwd by (rule refl)
  show ?thesis using tensorize_ground_truth_single [OF t] i by (rule conjI)
qed

theorem rescale_per_axis_witness:
  "labels2idx ''dog'' = Some 0 \<and> (500::int) \<noteq> 0 \<and> (333::int) \<noteq> 0
   \<and> argmax [1, 0, 0, 0, 0] = Inr 0 \<and> idx2labels 0 = Some ''dog''
   \<and> tensorize_ground_truth [\<lparr>a_size = (500, 333), a_filename = ''000001.jpg'',
       a_class = ''dog'', a_bbox = [47, 35, 147, 101]\<rparr>]
     = Inr ([[1, 0, 0, 0, 0]],
         [[(147 * scale_factor 500 + 47 * scale_factor 500) / 2,
           (101 * scale_factor 333 + 35 * scale_factor 333) / 2,
           147 * scale_factor 500 - 47 * scale_factor 500,
           101 * scale_factor 333 - 35 * scale_factor 333]])
   \<and> interpret_output [1, 0, 0, 0, 0] [112, 112, 56, 28] (500, 333)
     = Inr \<lparr>o_class = ''dog'', o_confidence = 1,
         o_bbox = [py_int (84 / scale_factor 500), py_int (98 / scale_factor 333),
                   py_int (140 / scale_factor 500), py_int (126 / scale_factor 333)]\<rparr>"
  using rescale_per_axis [of "\<lparr>a_size = (500, 333), a_filename = ''000001.jpg'',
      a_class = ''dog'', a_bbox = [47, 35, 147, 101]\<rparr>" 0 47 35 147 101 500 333
      "[1, 0, 0, 0, 0]" 0 "''dog''" 112 112 56 28]
  by (simp add: labels2idx_def idx2labels_def filters_def argmax_def num_classes_def upt_rec
      img_resize_def)

section \<open>Properties of \<open>accuracy_and_iou\<close>\<close>

lemma accuracy_loop_counts:
  assumes "list_all iou_defined pairs"
  shows "accuracy_loop pairs threshold (sum_valid, sum_accurate, sum_iou)
    = Inr (sum_valid + length (filter (positive threshold) pairs),
           sum_accurate + length (filter class_matches pairs),
           sum_iou + sum_list (map iou_of pairs))"
  using assms
proof (induction pairs arbitrary: sum_valid sum_accurate sum_iou)
  case Nil
  show ?case by simp
next
  case (Cons p pairs)
  obtain pred true where p: "p = (pred, true)" by (cases p)
  from Cons.prems p obtain v where v: "iou (o_bbox pred) (a_bbox true) = Inr v"
    by (auto simp: iou_defined_def split: sum.splits)
  from Cons.prems have rest: "list_all iou_defined pairs" by simp
  show ?case
    by (simp add: p v class_matches_def positive_def iou_of_def Cons.IH [OF rest])
qed

lemma positive_le_matches:
  "length (filter (positive threshold) pairs) \<le> length (filter class_matches pairs)"
proof -
  have "filter (positive threshold) pairs
      = filter (\<lambda>p. threshold < iou_of p) (filter class_matches pairs)"
    by (induction pairs) (simp_all add: positive_def)
  then show ?thesis by (simp del: filter_filter)
qed

text \<open>
  C10, as the code has it. For non-empty lists of equal length in which \<open>iou\<close> raises
  on no pair, \<open>accuracy_and_iou\<close> returns the fraction of pairs with matching class,
  the mean of the \<open>iou\<close> values and the fraction of positive pairs, and the last is at
  most the first.
\<close>

theorem global_le_class_accuracy:
  assumes "preds \<noteq> []" and "length preds = length trues"
    and "list_all iou_defined (zip preds trues)"
  shows "accuracy_and_iou preds trues threshold
      = Inr (real (length (filter class_matches (zip preds trues))) / real (length preds),
             sum_list (map iou_of (zip preds trues)) / real (length preds),
             real (length (filter (positive threshold) (zip preds trues))) / real (length preds))
    \<and> real (length (filter (positive threshold) (zip preds trues))) / real (length preds)
       \<le> real (length (filter class_matches (zip preds trues))) / real (length preds)"
proof -
  have l: "accuracy_loop (zip preds trues) threshold (0, 0, 0)
      = Inr (length (filter (positive threshold) (zip preds trues)),
             length (filter class_matches (zip preds trues)),
             sum_list (map iou_of (zip preds trues)))"
    using accuracy_loop_counts [OF assms(3), of threshold 0 0 0] by simp
  have n: "0 < length preds" using assms(1) by simp
  show ?thesis
    using n positive_le_matches [of threshold "zip preds trues"]
    by (simp add: accuracy_and_iou_def l Let_def divide_right_mono)
qed

theorem global_le_class_accuracy_witness:
  "[\<lparr>o_class = ''cat'', o_confidence = 9 / 10, o_bbox = [47, 35, 147, 101]\<rparr>,
    \<lparr>o_class = ''dog'', o_confidence = 8 / 10, o_bbox = [47, 35, 147, 101]\<rparr>] \<noteq> []
   \<and> iou_defined (\<lparr>o_class = ''cat'', o_confidence = 9 / 10, o_bbox = [47, 35, 147, 101]\<rparr>,
        \<lparr>a_size = (500, 333), a_filename = ''000001.jpg'', a_class = ''cat'',
         a_bbox = [1, 124, 496, 235]\<rparr>)
   \<and> iou_defined (\<lparr>o_class = ''dog'', o_confidence = 8 / 10, o_bbox = [47, 35, 147, 101]\<rparr>,
        \<lparr>a_size = (500, 333), a_filename = ''000002.jpg'', a_class = ''dog'',
         a_bbox = [49, 36, 145, 100]\<rparr>)
   \<and> accuracy_and_iou
       [\<lparr>o_class = ''cat'', o_confidence = 9 / 10, o_bbox = [47, 35, 147, 101]\<rparr>,
        \<lparr>o_class = ''dog'', o_confidence = 8 / 10, o_bbox = [47, 35, 147, 101]\<rparr>]
       [\<lparr>a_size = (500, 333), a_filename = ''000001.jpg'', a_class = ''cat'',
         a_bbox = [1, 124, 496, 235]\<rparr>,
        \<lparr>a_size = (500, 333), a_filename = ''000002.jpg'', a_class = ''dog'',
         a_bbox = [49, 36, 145, 100]\<rparr>]
       (1 / 2)
     = Inr (1, 128 / 275, 1 / 2)
   \<and> (1 / 2 :: real) \<le> 1"
  using global_le_class_accuracy
    [of "[\<lparr>o_class = ''cat'', o_confidence = 9 / 10, o_bbox = [47, 35, 147, 101]\<rparr>,
          \<lparr>o_class = ''dog'', o_confidence = 8 / 10, o_bbox = [47, 35, 147, 101]\<rparr>]"
        "[\<lparr>a_size = (500, 333), a_filename = ''000001.jpg'', a_class = ''cat'',
           a_bbox = [1, 124, 496, 235]\<rparr>,
          \<lparr>a_size = (500, 333), a_filename = ''000002.jpg'', a_class = ''dog'',
           a_bbox = [49, 36, 145, 100]\<rparr>]" "1 / 2"]
  by (simp add: iou_defined_def iou_of_def class_matches_def positive_def iou_def
      iou_denominator_def box_area_def inter_area_def)

text \<open>
  C10 as stated fails: on a pair of boxes of zero area \<open>iou\<close> raises
  \<open>ZeroDivisionError\<close>, and \<open>accuracy_and_iou\<close> returns no triple.
\<close>

theorem global_le_class_accuracy_counterexample:
  "[\<lparr>o_class = ''cat'', o_confidence = 1, o_bbox = [5, 5, 5, 9]\<rparr>] \<noteq> []
   \<and> length [\<lparr>o_class = ''cat'', o_confidence = 1, o_bbox = [5, 5, 5, 9]\<rparr>]
     = length [\<lparr>a_size = (500, 333), a_filename = ''000001.jpg'', a_class = ''cat'',
         a_bbox = [5, 5, 5, 9]\<rparr>]
   \<and> accuracy_and_iou [\<lparr>o_class = ''cat'', o_confidence = 1, o_bbox = [5, 5, 5, 9]\<rparr>]
       [\<lparr>a_size = (500, 333), a_filename = ''000001.jpg'', a_class = ''cat'',
         a_bbox = [5, 5, 5, 9]\<rparr>] (1 / 2)
     = Inl ZeroDivisionError"
  by (simp add: accuracy_and_iou_def iou_def iou_denominator_def box_area_def inter_area_def)

section \<open>Properties of \<open>camera_grab\<close>\<close>

lemma snapshots_numeral:
  "snapshots (numeral k) latest camera =
     (case camera_read camera of
        (Inl e, camera') \<Rightarrow> (Inl e, camera')
      | (Inr r, camera') \<Rightarrow> snapshots (pred_numeral k) (Some r) camera')"
  by (simp add: numeral_eq_Suc)

text \<open>
  C9. Once the camera object exists, every call of \<open>camera_grab\<close> leaves it released,
  whether the body of the \<open>try\<close> statement returned or raised; and when the tenth
  snapshot reports failure, a non-empty \<open>fallback_filename\<close> is given and \<open>imread\<close>
  reads an image from it, that image is returned.
\<close>

theorem camera_grab_releases:
  assumes "VideoCapture cv camera_id = Inr camera"
  shows "(\<exists>c. device (camera_grab cv camera_id fallback_filename) = Some c \<and> released c)
    \<and> (fst (snapshots 10 None camera) = Inr (Some (False, frame))
        \<and> fallback_filename = Some name \<and> name \<noteq> [] \<and> imread cv name = Inr file_image
       \<longrightarrow> returned (camera_grab cv camera_id fallback_filename) = Inr (Some file_image))"
proof -
  obtain result camera' out where t: "try_block cv fallback_filename camera = (result, camera', out)"
    by (cases "try_block cv fallback_filename camera")
  have g: "camera_grab cv camera_id fallback_filename
      = \<lparr>returned = result, device = Some (release camera'), stdout = out\<rparr>"
    by (simp add: camera_grab_def assms t)
  have rel: "\<exists>c. device (camera_grab cv camera_id fallback_filename) = Some c \<and> released c"
    by (simp add: g release_def)
  have fb: "result = Inr (Some file_image)"
    if failed: "fst (snapshots 10 None camera) = Inr (Some (False, frame))"
      and given: "fallback_filename = Some name" "name \<noteq> []"
      and on_disk: "imread cv name = Inr file_image"
  proof -
    obtain c where s: "snapshots 10 None camera = (Inr (Some (False, frame)), c)"
      using failed by (cases "snapshots 10 None camera") simp
    show ?thesis using t given on_disk by (simp add: try_block_def s)
  qed
  have ret: "returned (camera_grab cv camera_id fallback_filename) = result"
    by (simp add: g)
  show ?thesis using rel fb unfolding ret by blast
qed

theorem camera_grab_releases_witness:
  "VideoCapture \<lparr>VideoCapture = (\<lambda>i. Inr \<lparr>pending = [], released = False\<rparr>),
        cvtColor = (\<lambda>i. Inr (Suc i)), imread = (\<lambda>n. Inr (7::nat))\<rparr> 0
     = Inr \<lparr>pending = [], released = False\<rparr>
   \<and> fst (snapshots 10 None \<lparr>pending = [], released = False\<rparr>) = Inr (Some (False, None :: nat option))
   \<and> device (camera_grab \<lparr>VideoCapture = (\<lambda>i. Inr \<lparr>pending = [], released = False\<rparr>),
        cvtColor = (\<lambda>i. Inr (Suc i)), imread = (\<lambda>n. Inr (7::nat))\<rparr> 0 (Some ''laptop.jpeg''))
     = Some \<lparr>pending = [], released = True\<rparr>
   \<and> returned (camera_grab \<lparr>VideoCapture = (\<lambda>i. Inr \<lparr>pending = [], released = False\<rparr>),
        cvtColor = (\<lambda>i. Inr (Suc i)), imread = (\<lambda>n. Inr (7::nat))\<rparr> 0 (Some ''laptop.jpeg''))
     = Inr (Some 7)"
  using camera_grab_releases [of "\<lparr>VideoCapture = (\<lambda>i. Inr \<lparr>pending = [], released = False\<rparr>),
        cvtColor = (\<lambda>i. Inr (Suc i)), imread = (\<lambda>n. Inr (7::nat))\<rparr>" 0
        "\<lparr>pending = [], released = False\<rparr>" "Some ''laptop.jpeg''" None "''laptop.jpeg''" 7]
  by (simp add: camera_grab_def try_block_def camera_read_def release_def snapshots_numeral)

text \<open>
  The paths on which an exception propagates: a snapshot that raises, a fallback file
  that cannot be read, and a camera object that cannot be created, in which case there
  is no device to release.
\<close>

lemma camera_grab_read_raises:
  "camera_grab \<lparr>VideoCapture = (\<lambda>i. Inr \<lparr>pending = [Inr (True, Some 1), Inl CvError],
          released = False\<rparr>),
        cvtColor = (\<lambda>i. Inr (Suc i)), imread = (\<lambda>n. Inl FileNotFoundError)\<rparr> 0 None
     = \<lparr>returned = Inl CvError, device = Some \<lparr>pending = [], released = True\<rparr>, stdout = []\<rparr>"
  by (simp add: camera_grab_def try_block_def camera_read_def release_def snapshots_numeral)

lemma camera_grab_fallback_missing:
  "camera_grab \<lparr>VideoCapture = (\<lambda>i. Inr \<lparr>pending = [], released = False\<rparr>),
        cvtColor = (\<lambda>i. Inr (Suc i)), imread = (\<lambda>n. Inl FileNotFoundError)\<rparr> 0
        (Some ''laptop.jpeg'')
     = \<lparr>returned = Inl FileNotFoundError, device = Some \<lparr>pending = [], released = True\<rparr>,
        stdout = [''WARNING: could not access camera'']\<rparr>"
  by (simp add: camera_grab_def try_block_def camera_read_def release_def snapshots_numeral)

lemma camera_grab_no_camera:
  "VideoCapture cv camera_id = Inl e \<Longrightarrow>
     camera_grab cv camera_id fallback_filename = \<lparr>returned = Inl e, device = None, stdout = []\<rparr>"
  by (simp add: camera_grab_def)

section \<open>Properties of the text generation\<close>

text \<open>
  C8. On the arguments of the notebook's test cell, and on all others, \<open>generate_text\<close>
  returns \<open>None\<close>: it queries no model, appends no token and returns no generated
  sequence.
\<close>

theorem generate_text_returns_None:
  "generate_text model tokenizer ''hamlet'' SEQ_LENGTH = None
   \<and> generate_text model tokenizer seed_text max_sequence_len = None"
  by (simp add: generate_text_def)

text \<open>
  The helper alone makes one step of such a loop: one query of the model and one
  index drawn from the distribution it returns.
\<close>

lemma get_predicted_word_queries_once:
  "get_predicted_word predict random_choice VOCAB_SIZE sequence
     = random_choice [0 ..< VOCAB_SIZE] (predict sequence)"
  by (simp add: get_predicted_word_def)

end
